theory Spec2Isabelle
  imports Main
begin

section \<open>Locator synthesis of appium-mcp: the data\<close>

text \<open>
  The development follows \<^verbatim>\<open>source-parsing.ts\<close>, \<^verbatim>\<open>element-filter.ts\<close>,
  \<^verbatim>\<open>locator-generation.ts\<close> and \<^verbatim>\<open>generate-all-locators.ts\<close>.

  The snapshot parser and the XPath evaluator are libraries outside the repository. The
  model starts from the parsed document, the value of \<^verbatim>\<open>xmlToDOM(sourceXML)\<close>, and
  gives the evaluator a meaning on the query shapes the engine builds.

  Only element nodes are kept: \<^verbatim>\<open>childNodesOf\<close>, the sibling filters
  (\<^verbatim>\<open>nodeType === 1\<close>) and the queries \<^verbatim>\<open>//tag\<close>, \<^verbatim>\<open>//*\<close> all ignore every
  other kind of node. Tag and attribute names are XML names.
\<close>

datatype xnode =
  Element (nodeName: string) (attrs: "(string \<times> string) list") (childElements: "xnode list")

text \<open>
  The Document node: its own \<^verbatim>\<open>nodeName\<close> (the DOM gives every Document the name
  \<^verbatim>\<open>#document\<close>) and its element children (one, the document element, when the
  markup is well formed; none when no element was parsed).
\<close>

record XMLDocument =
  documentName :: string
  documentChildren :: "xnode list"

text \<open>
  A DOM node is named by its position: the list of child ordinals leading to it from the
  Document node, which is the empty list. \<^verbatim>\<open>undefined\<close> is \<open>None\<close> of
  \<open>domNode option\<close>.
\<close>

type_synonym domNode = "nat list"

fun nodeAt :: "xnode list \<Rightarrow> domNode \<Rightarrow> xnode option" where
  "nodeAt ns [] = None"
| "nodeAt ns [i] = (if i < length ns then Some (ns ! i) else None)"
| "nodeAt ns (i # j # p) =
     (if i < length ns then nodeAt (childElements (ns ! i)) (j # p) else None)"

definition elementAt :: "XMLDocument \<Rightarrow> domNode \<Rightarrow> xnode option" where
  "elementAt doc p = nodeAt (documentChildren doc) p"

text \<open>\<^verbatim>\<open>childNodesOf(domNode)\<close>: the element children; none for \<^verbatim>\<open>undefined\<close>.\<close>

definition childNodesOf :: "XMLDocument \<Rightarrow> domNode option \<Rightarrow> xnode list" where
  "childNodesOf doc d =
     (case d of
        None \<Rightarrow> []
      | Some p \<Rightarrow>
          (if p = [] then documentChildren doc
           else (case elementAt doc p of None \<Rightarrow> [] | Some n \<Rightarrow> childElements n)))"

text \<open>\<^verbatim>\<open>getAttribute\<close>; an absent attribute is \<open>None\<close>.\<close>

definition getAttribute :: "xnode \<Rightarrow> string \<Rightarrow> string option" where
  "getAttribute n a = map_of (attrs n) a"

text \<open>Every element of a forest with its position, in document order.\<close>

fun elementsFrom :: "nat list \<Rightarrow> nat \<Rightarrow> xnode list \<Rightarrow> (domNode \<times> xnode) list" where
  "elementsFrom pre i [] = []"
| "elementsFrom pre i (Element t a ks # rest) =
     (pre @ [i], Element t a ks) # elementsFrom (pre @ [i]) 0 ks @ elementsFrom pre (Suc i) rest"

definition allElements :: "XMLDocument \<Rightarrow> (domNode \<times> xnode) list" where
  "allElements doc = elementsFrom [] 0 (documentChildren doc)"

subsection \<open>Strings\<close>

abbreviation dq :: string where "dq \<equiv> [CHR 0x22]"
abbreviation newline :: char where "newline \<equiv> CHR 0x0A"
abbreviation backslash :: char where "backslash \<equiv> CHR 0x5C"
abbreviation backtick :: string where "backtick \<equiv> [CHR 0x60]"

text \<open>Decimal rendering of a number, as template strings do.\<close>

function digitsOf :: "nat \<Rightarrow> string" where
  "digitsOf n =
     (if n < 10 then [''0123456789'' ! n]
      else digitsOf (n div 10) @ [''0123456789'' ! (n mod 10)])"
  by pat_completeness auto
termination
  by (relation "measure id") auto

definition showInt :: "int \<Rightarrow> string" where
  "showInt i = (if i < 0 then ''-'' @ digitsOf (nat (- i)) else digitsOf (nat i))"

text \<open>\<^verbatim>\<open>Array.prototype.indexOf\<close>: \<open>-1\<close> when the element is absent.\<close>

fun indexOf :: "'a list \<Rightarrow> 'a \<Rightarrow> int" where
  "indexOf [] x = - 1"
| "indexOf (y # ys) x =
     (if y = x then 0 else (let i = indexOf ys x in if i < 0 then - 1 else i + 1))"

text \<open>\<^verbatim>\<open>Array.prototype.join\<close>.\<close>

fun joinWith :: "string \<Rightarrow> string list \<Rightarrow> string" where
  "joinWith sep [] = []"
| "joinWith sep [x] = x"
| "joinWith sep (x # y # ys) = x @ sep @ joinWith sep (y # ys)"

text \<open>\<^verbatim>\<open>String.prototype.includes\<close>.\<close>

fun includesStr :: "string \<Rightarrow> string \<Rightarrow> bool" where
  "includesStr [] t = (t = [])"
| "includesStr (c # s) t = (take (length t) (c # s) = t \<or> includesStr s t)"

text \<open>\<^verbatim>\<open>value.replace(/"/g, '')\<close>.\<close>

definition stripQuotes :: "string \<Rightarrow> string" where
  "stripQuotes v = filter (\<lambda>c. c \<noteq> CHR 0x22) v"

text \<open>\<^verbatim>\<open>value.replace(/(\n)/gm, '\\n')\<close>: each newline becomes backslash, n.\<close>

fun escapeNewlines :: "string \<Rightarrow> string" where
  "escapeNewlines [] = []"
| "escapeNewlines (c # cs) =
     (if c = newline then backslash # CHR ''n'' # escapeNewlines cs else c # escapeNewlines cs)"

text \<open>A JavaScript string is truthy when it is present and not empty.\<close>

fun truthy :: "string option \<Rightarrow> bool" where
  "truthy None = False"
| "truthy (Some s) = (s \<noteq> [])"

subsection \<open>Objects with string keys\<close>

text \<open>
  A \<^verbatim>\<open>Record<string, string>\<close> is an association list in insertion order:
  assigning to a key that is there keeps its place. (The keys used are never
  integer-like, so insertion order is enumeration order.)
\<close>

type_synonym 'a obj = "(string \<times> 'a) list"

fun objSet :: "'a obj \<Rightarrow> string \<Rightarrow> 'a \<Rightarrow> 'a obj" where
  "objSet [] k v = [(k, v)]"
| "objSet ((k', v') # r) k v = (if k' = k then (k, v) # r else (k', v') # objSet r k v)"

text \<open>\<^verbatim>\<open>Object.fromEntries\<close>, and the spread \<^verbatim>\<open>{...a, ...b}\<close>.\<close>

definition assignAll :: "'a obj \<Rightarrow> (string \<times> 'a) list \<Rightarrow> 'a obj" where
  "assignAll target entries = fold (\<lambda>(k, v) acc. objSet acc k v) entries target"

definition fromEntries :: "(string \<times> 'a) list \<Rightarrow> 'a obj" where
  "fromEntries entries = assignAll [] entries"

subsection \<open>The XPath evaluator on the queries of the engine\<close>

text \<open>
  Every string handed to \<^verbatim>\<open>XPath.select\<close> is built by one template:
  \<^verbatim>\<open>//T[@a1="v1" and @a2="v2" ...]\<close> with \<open>T\<close> a tag name or \<^verbatim>\<open>*\<close>, or \<^verbatim>\<open>//T\<close>
  when there is no attribute test. \<open>Descendants T tests\<close> is that query and
  \<open>xpathString\<close> the string of the source.

  Its value is the list, in document order, of the elements named \<open>T\<close> (any element
  for \<^verbatim>\<open>*\<close>) that carry each attribute with the value compared. A double quote inside
  a compared value ends the string literal early, and so does a missing tag: the
  evaluator then raises, which is \<open>None\<close>. (A value crafted to form another valid
  expression is outside this model; the theorems that depend on the evaluation of a value
  assume it free of double quotes.)
\<close>

datatype xpathQuery = Descendants string "(string \<times> string) list"

fun attributeTest :: "string \<times> string \<Rightarrow> string" where
  "attributeTest (a, v) = ''@'' @ a @ ''='' @ dq @ v @ dq"

fun xpathString :: "xpathQuery \<Rightarrow> string" where
  "xpathString (Descendants t []) = ''//'' @ t"
| "xpathString (Descendants t (x # xs)) =
     ''//'' @ t @ ''['' @ joinWith '' and '' (map attributeTest (x # xs)) @ '']''"

fun matchesQuery :: "xpathQuery \<Rightarrow> xnode \<Rightarrow> bool" where
  "matchesQuery (Descendants t tests) n =
     ((t = ''*'' \<or> nodeName n = t) \<and> list_all (\<lambda>av. av \<in> set (attrs n)) tests)"

fun parses :: "xpathQuery \<Rightarrow> bool" where
  "parses (Descendants t tests) = (t \<noteq> [] \<and> list_all (\<lambda>av. CHR 0x22 \<notin> set (snd av)) tests)"

definition xpathSelect :: "xpathQuery \<Rightarrow> XMLDocument \<Rightarrow> domNode list option" where
  "xpathSelect q doc =
     (if parses q then Some (map fst (filter (\<lambda>pn. matchesQuery q (snd pn)) (allElements doc)))
      else None)"

subsection \<open>source-parsing.ts\<close>

datatype error = NoElementFound | XPathError

text \<open>
  \<^verbatim>\<open>documentElement\<close> is the first element child of the Document, so the second
  alternative of \<^verbatim>\<open>childNodesOf(doc)[0] || (doc.documentElement ? ... : null)\<close> is
  reached only with no document element.
\<close>

definition documentElement :: "XMLDocument \<Rightarrow> domNode option" where
  "documentElement doc = (case documentChildren doc of [] \<Rightarrow> None | e # es \<Rightarrow> Some [0])"

definition firstElement :: "XMLDocument \<Rightarrow> domNode option" where
  "firstElement doc =
     (case childNodesOf doc (Some []) of
        e # es \<Rightarrow> Some [0]
      | [] \<Rightarrow>
          (case documentElement doc of
             None \<Rightarrow> None
           | Some r \<Rightarrow> (case childNodesOf doc (Some r) of [] \<Rightarrow> None | c # cs \<Rightarrow> Some (r @ [0]))))"

text \<open>
  A path, the dot-separated string of ordinals of the source, is the list of the
  ordinals; the empty string is the empty list. \<^verbatim>\<open>''.split('.')\<close> is \<^verbatim>\<open>['']\<close>, whose
  one index parses to \<^verbatim>\<open>NaN\<close>: the lookup for the empty path ends in
  \<^verbatim>\<open>undefined\<close>, like the lookup of an ordinal that is out of range.
\<close>

fun descend :: "XMLDocument \<Rightarrow> domNode option \<Rightarrow> nat list \<Rightarrow> domNode option" where
  "descend doc selectedElement [] = selectedElement"
| "descend doc selectedElement (index # rest) =
     descend doc
       (case selectedElement of
          None \<Rightarrow> None
        | Some p \<Rightarrow>
            (if index < length (childNodesOf doc (Some p)) then Some (p @ [index]) else None))
       rest"

definition findDOMNodeByPath :: "nat list \<Rightarrow> XMLDocument \<Rightarrow> error + domNode option" where
  "findDOMNodeByPath path sourceDoc =
     (case firstElement sourceDoc of
        None \<Rightarrow> Inl NoElementFound
      | Some selectedElement \<Rightarrow>
          Inr (if path = [] then None else descend sourceDoc (Some selectedElement) path))"

datatype JSONElement =
  JSONElement (children: "JSONElement list") (tagName: string)
    (attributes: "string obj") (path: "nat list")

fun translateRecursively :: "xnode \<Rightarrow> nat list \<Rightarrow> nat option \<Rightarrow> JSONElement"
  and translateChildren :: "xnode list \<Rightarrow> nat list \<Rightarrow> nat \<Rightarrow> JSONElement list"
where
  "translateRecursively (Element t a ks) parentPath index =
     JSONElement
       (translateChildren ks (case index of None \<Rightarrow> [] | Some i \<Rightarrow> parentPath @ [i]) 0)
       t
       (fromEntries (map (\<lambda>kv. (fst kv, escapeNewlines (snd kv))) a))
       (case index of None \<Rightarrow> [] | Some i \<Rightarrow> parentPath @ [i])"
| "translateChildren [] parentPath childIndex = []"
| "translateChildren (k # ks) parentPath childIndex =
     translateRecursively k parentPath (Some childIndex)
       # translateChildren ks parentPath (Suc childIndex)"

definition xmlToJSON :: "XMLDocument \<Rightarrow> JSONElement" where
  "xmlToJSON sourceDoc =
     (case firstElement sourceDoc of
        None \<Rightarrow> JSONElement [] [] [] []
      | Some firstChild \<Rightarrow>
          (case elementAt sourceDoc firstChild of
             None \<Rightarrow> JSONElement [] [] [] []
           | Some domNode \<Rightarrow> translateRecursively domNode [] None))"

subsection \<open>element-filter.ts\<close>

text \<open>An option that is \<^verbatim>\<open>undefined\<close> is \<open>None\<close> and takes its default.\<close>

record FilterOptions =
  includeTagNames :: "string list option"
  excludeTagNames :: "string list option"
  requireAttributes :: "string list option"
  minAttributeCount :: "int option"
  fetchableOnly :: "bool option"
  clickableOnly :: "bool option"

definition matchesTagFilters :: "JSONElement \<Rightarrow> string list \<Rightarrow> string list \<Rightarrow> bool" where
  "matchesTagFilters element includeTags excludeTags =
     (if length includeTags > 0 \<and> tagName element \<notin> set includeTags then False
      else if tagName element \<in> set excludeTags then False
      else True)"

definition matchesAttributeFilters :: "JSONElement \<Rightarrow> string list \<Rightarrow> int \<Rightarrow> bool" where
  "matchesAttributeFilters element requireAttrs minCount =
     (if length requireAttrs > 0
         \<and> \<not> list_ex (\<lambda>attr. truthy (map_of (attributes element) attr)) requireAttrs
      then False
      else if int (length (attributes element)) < minCount then False
      else True)"

definition androidInteractableTags :: "string list" where
  "androidInteractableTags =
     [''EditText'', ''Button'', ''ImageButton'', ''CheckBox'', ''RadioButton'', ''Switch'',
      ''ToggleButton'', ''TextView'']"

definition iosInteractableTags :: "string list" where
  "iosInteractableTags =
     [''XCUIElementTypeTextField'', ''XCUIElementTypeSecureTextField'',
      ''XCUIElementTypeButton'', ''XCUIElementTypeImage'', ''XCUIElementTypeSwitch'',
      ''XCUIElementTypeStaticText'', ''XCUIElementTypeTextView'', ''XCUIElementTypeCell'',
      ''XCUIElementTypeLink'']"

definition isInteractableElement :: "JSONElement \<Rightarrow> bool \<Rightarrow> string \<Rightarrow> bool" where
  "isInteractableElement element isNative automationName =
     (list_ex (\<lambda>tag. includesStr (tagName element) tag)
        (if isNative \<and> automationName = ''uiautomator2'' then androidInteractableTags
         else iosInteractableTags)
      \<or> map_of (attributes element) ''clickable'' = Some ''true''
      \<or> map_of (attributes element) ''focusable'' = Some ''true'')"

definition shouldIncludeElement ::
  "JSONElement \<Rightarrow> FilterOptions \<Rightarrow> bool \<Rightarrow> string \<Rightarrow> bool" where
  "shouldIncludeElement element filters isNative automationName =
     (if \<not> matchesTagFilters element
            (case includeTagNames filters of None \<Rightarrow> [] | Some ts \<Rightarrow> ts)
            (case excludeTagNames filters of None \<Rightarrow> [''hierarchy''] | Some ts \<Rightarrow> ts)
      then False
      else if \<not> matchesAttributeFilters element
            (case requireAttributes filters of None \<Rightarrow> [] | Some as \<Rightarrow> as)
            (case minAttributeCount filters of None \<Rightarrow> 0 | Some m \<Rightarrow> m)
      then False
      else if (case clickableOnly filters of None \<Rightarrow> False | Some b \<Rightarrow> b)
            \<and> map_of (attributes element) ''clickable'' \<noteq> Some ''true''
      then False
      else if (case fetchableOnly filters of None \<Rightarrow> False | Some b \<Rightarrow> b)
            \<and> \<not> isInteractableElement element isNative automationName
      then False
      else True)"

subsection \<open>locator-generation.ts: the tables\<close>

definition UNIQUE_XPATH_ATTRIBUTES :: "string list" where
  "UNIQUE_XPATH_ATTRIBUTES = [''name'', ''content-desc'', ''id'', ''resource-id'', ''accessibility-id'']"

definition MAYBE_UNIQUE_XPATH_ATTRIBUTES :: "string list" where
  "MAYBE_UNIQUE_XPATH_ATTRIBUTES = [''label'', ''text'', ''value'']"

definition CHECKED_CLASS_CHAIN_ATTRIBUTES :: "string list" where
  "CHECKED_CLASS_CHAIN_ATTRIBUTES = [''name'', ''label'', ''value'']"

definition CHECKED_PREDICATE_ATTRIBUTES :: "string list" where
  "CHECKED_PREDICATE_ATTRIBUTES = [''name'', ''label'', ''value'', ''type'']"

definition CHECKED_UIAUTOMATOR_ATTRIBUTES :: "(string \<times> string) list" where
  "CHECKED_UIAUTOMATOR_ATTRIBUTES =
     [(''resource-id'', ''resourceId''), (''text'', ''text''),
      (''content-desc'', ''description''), (''class'', ''className'')]"

definition SIMPLE_STRATEGY_MAPPINGS :: "(string \<times> string) list" where
  "SIMPLE_STRATEGY_MAPPINGS =
     [(''name'', ''accessibility id''), (''content-desc'', ''accessibility id''),
      (''id'', ''id''), (''rntestid'', ''id''), (''resource-id'', ''id''),
      (''class'', ''class name''), (''type'', ''class name'')]"

subsection \<open>Simple strategies\<close>

text \<open>
  \<^verbatim>\<open>!sourceDoc\<close> holds for an absent document. \<^verbatim>\<open>_.isEmpty(sourceDoc)\<close> is false
  for every Document object, which has properties of its own. The query is evaluated
  outside any \<^verbatim>\<open>try\<close>, so an exception of the evaluator leaves the function.
\<close>

definition areAttrAndValueUnique ::
  "string \<Rightarrow> string \<Rightarrow> XMLDocument option \<Rightarrow> error + bool" where
  "areAttrAndValueUnique attrName attrValue sourceDoc =
     (case sourceDoc of
        None \<Rightarrow> Inr True
      | Some doc \<Rightarrow>
          (case xpathSelect (Descendants ''*'' [(attrName, stripQuotes attrValue)]) doc of
             None \<Rightarrow> Inl XPathError
           | Some result \<Rightarrow> Inr (length result < 2)))"

fun simpleLoop ::
  "(string \<times> string) list \<Rightarrow> string obj \<Rightarrow> XMLDocument option \<Rightarrow> bool \<Rightarrow> string obj
     \<Rightarrow> error + string obj" where
  "simpleLoop [] attributes' sourceDoc isNative res = Inr res"
| "simpleLoop ((strategyAlias, strategy) # rest) attributes' sourceDoc isNative res =
     (if \<not> (strategy = ''accessibility id'' \<and> \<not> isNative) then
        (case map_of attributes' strategyAlias of
           None \<Rightarrow> simpleLoop rest attributes' sourceDoc isNative res
         | Some v \<Rightarrow>
             (if v = [] then simpleLoop rest attributes' sourceDoc isNative res
              else
                (case areAttrAndValueUnique strategyAlias v sourceDoc of
                   Inl e \<Rightarrow> Inl e
                 | Inr unique \<Rightarrow>
                     simpleLoop rest attributes' sourceDoc isNative
                       (if unique then objSet res strategy v else res))))
      else simpleLoop rest attributes' sourceDoc isNative res)"

definition getSimpleSuggestedLocators ::
  "string obj \<Rightarrow> XMLDocument option \<Rightarrow> bool \<Rightarrow> error + string obj" where
  "getSimpleSuggestedLocators attributes' sourceDoc isNative =
     simpleLoop SIMPLE_STRATEGY_MAPPINGS attributes' sourceDoc isNative []"

subsection \<open>The XPath strategy\<close>

definition determineXpathUniqueness ::
  "xpathQuery \<Rightarrow> XMLDocument \<Rightarrow> domNode \<Rightarrow> bool \<times> int option" where
  "determineXpathUniqueness xpath doc domNode =
     (case xpathSelect xpath doc of
        None \<Rightarrow> (False, None)
      | Some othersWithAttr \<Rightarrow>
          (if length othersWithAttr > 1 then (False, Some (indexOf othersWithAttr domNode))
           else (True, None)))"

definition parentNode :: "domNode \<Rightarrow> domNode option" where
  "parentNode d = (if d = [] then None else Some (butlast d))"

definition nodeNameOf :: "XMLDocument \<Rightarrow> domNode \<Rightarrow> string option" where
  "nodeNameOf doc d =
     (if d = [] then Some (documentName doc) else map_option nodeName (elementAt doc d))"

text \<open>The \<^verbatim>\<open>attrs\<close> argument: attribute names, or pairs of them.\<close>

datatype attrList = Names "string list" | Pairs "(string \<times> string) list"

fun attrListLength :: "attrList \<Rightarrow> nat" where
  "attrListLength (Names as) = length as"
| "attrListLength (Pairs ps) = length ps"

text \<open>
  The query one attribute name (or pair) gives for a node; \<open>None\<close> when the loop
  \<^verbatim>\<open>continue\<close>s because a value is absent or empty.
\<close>

definition singleQuery :: "string \<Rightarrow> xnode \<Rightarrow> string \<Rightarrow> xpathQuery option" where
  "singleQuery tagForXpath n attrName =
     (case getAttribute n attrName of
        None \<Rightarrow> None
      | Some attrValue \<Rightarrow>
          (if attrValue = [] then None
           else Some (Descendants tagForXpath [(attrName, attrValue)])))"

definition pairQuery :: "string \<Rightarrow> xnode \<Rightarrow> string \<times> string \<Rightarrow> xpathQuery option" where
  "pairQuery tagForXpath n pr =
     (if \<not> truthy (getAttribute n (fst pr)) \<or> \<not> truthy (getAttribute n (snd pr)) then None
      else
        (case (getAttribute n (fst pr), getAttribute n (snd pr)) of
           (Some attr1Value, Some attr2Value) \<Rightarrow>
             Some (Descendants tagForXpath [(fst pr, attr1Value), (snd pr, attr2Value)])
         | _ \<Rightarrow> None))"

fun candidateQueries :: "string \<Rightarrow> xnode \<Rightarrow> attrList \<Rightarrow> xpathQuery option list" where
  "candidateQueries tagForXpath n (Names as) = map (singleQuery tagForXpath n) as"
| "candidateQueries tagForXpath n (Pairs ps) = map (pairQuery tagForXpath n) ps"

definition semiUnique :: "xpathQuery \<Rightarrow> int \<Rightarrow> string" where
  "semiUnique xpath indexIfNotUnique =
     ''('' @ xpathString xpath @ '')['' @ showInt (indexIfNotUnique + 1) @ '']''"

fun uniqueLoop ::
  "XMLDocument \<Rightarrow> domNode \<Rightarrow> xpathQuery option list \<Rightarrow> string option
     \<Rightarrow> string option \<times> bool option" where
  "uniqueLoop doc domNode [] semiUniqueXpath =
     (if truthy semiUniqueXpath then (semiUniqueXpath, Some False) else (None, None))"
| "uniqueLoop doc domNode (None # rest) semiUniqueXpath =
     uniqueLoop doc domNode rest semiUniqueXpath"
| "uniqueLoop doc domNode (Some xpath # rest) semiUniqueXpath =
     (case determineXpathUniqueness xpath doc domNode of
        (isUnique, indexIfNotUnique) \<Rightarrow>
          (if isUnique then (Some (xpathString xpath), Some True)
           else
             uniqueLoop doc domNode rest
               (case indexIfNotUnique of
                  None \<Rightarrow> semiUniqueXpath
                | Some i \<Rightarrow>
                    (if \<not> truthy semiUniqueXpath then Some (semiUnique xpath i)
                     else semiUniqueXpath))))"

definition getUniqueXPath ::
  "XMLDocument \<Rightarrow> domNode \<Rightarrow> xnode \<Rightarrow> attrList \<Rightarrow> string option \<times> bool option" where
  "getUniqueXPath doc domNode n attrs' =
     (if attrListLength attrs' = 0 then
        (if fst (determineXpathUniqueness (Descendants (nodeName n) []) doc domNode) then
           (if \<not> truthy (case parentNode domNode of None \<Rightarrow> None | Some p \<Rightarrow> nodeNameOf doc p)
            then (Some (''/'' @ nodeName n), Some True)
            else (Some (''//'' @ nodeName n), Some True))
         else (None, None))
      else
        uniqueLoop doc domNode
          (candidateQueries (if nodeName n = [] then ''*'' else nodeName n) n attrs') None)"

fun pairsOf :: "'a list \<Rightarrow> ('a \<times> 'a) list" where
  "pairsOf [] = []"
| "pairsOf (v1 # rest) = map (Pair v1) rest @ pairsOf rest"

definition attrsForPairs :: "string list" where
  "attrsForPairs = UNIQUE_XPATH_ATTRIBUTES @ MAYBE_UNIQUE_XPATH_ATTRIBUTES"

definition xpathCases :: "attrList list" where
  "xpathCases =
     [Names UNIQUE_XPATH_ATTRIBUTES, Pairs (pairsOf attrsForPairs),
      Names MAYBE_UNIQUE_XPATH_ATTRIBUTES, Names []]"

text \<open>
  The loop over the cases: \<open>Inl\<close> is the \<^verbatim>\<open>return\<close> from inside the loop, \<open>Inr\<close>
  the value of \<^verbatim>\<open>semiUniqueXpath\<close> when the loop ends.
\<close>

fun casesLoop ::
  "XMLDocument \<Rightarrow> domNode \<Rightarrow> xnode \<Rightarrow> attrList list \<Rightarrow> string option
     \<Rightarrow> string option + string option" where
  "casesLoop doc domNode n [] semiUniqueXpath = Inr semiUniqueXpath"
| "casesLoop doc domNode n (attrs' # rest) semiUniqueXpath =
     (case getUniqueXPath doc domNode n attrs' of
        (xpath, isFullyUnique) \<Rightarrow>
          (if isFullyUnique = Some True then Inl xpath
           else
             casesLoop doc domNode n rest
               (if \<not> truthy semiUniqueXpath \<and> truthy xpath then xpath else semiUniqueXpath)))"

text \<open>
  The step \<^verbatim>\<open>/tag\<close> or \<^verbatim>\<open>/tag[k]\<close> of the hierarchical expression: \<open>k\<close> counts the
  node among the children of its parent that have its name.
\<close>

definition sameNameSiblings :: "XMLDocument \<Rightarrow> domNode \<Rightarrow> xnode \<Rightarrow> nat list" where
  "sameNameSiblings doc parent n =
     filter (\<lambda>i. nodeName (childNodesOf doc (Some parent) ! i) = nodeName n)
       [0..<length (childNodesOf doc (Some parent))]"

definition positionStep :: "XMLDocument \<Rightarrow> domNode \<Rightarrow> xnode \<Rightarrow> string" where
  "positionStep doc domNode n =
     (case parentNode domNode of
        None \<Rightarrow> ''/'' @ nodeName n
      | Some parent \<Rightarrow>
          (if length (sameNameSiblings doc parent n) > 1 then
             ''/'' @ nodeName n @ ''[''
               @ showInt (indexOf (sameNameSiblings doc parent n) (last domNode) + 1) @ '']''
           else ''/'' @ nodeName n))"

text \<open>
  A generator either returns (a string, or \<^verbatim>\<open>null\<close> as \<open>None\<close>) or ends in its
  \<^verbatim>\<open>catch\<close> block, which logs the error and returns \<^verbatim>\<open>null\<close>: \<open>Caught\<close>.
  Reading \<^verbatim>\<open>nodeName\<close> of \<^verbatim>\<open>undefined\<close> raises. The Document node is no element
  (\<^verbatim>\<open>nodeType\<close> 9).
\<close>

datatype 'a attempt = Returned 'a | Caught

fun nullable :: "string option attempt \<Rightarrow> string option" where
  "nullable (Returned r) = r"
| "nullable Caught = None"

text \<open>\<^verbatim>\<open>getOptimalXPath(doc, parent) + xpath\<close>; \<^verbatim>\<open>null + s\<close> is \<^verbatim>\<open>"null" + s\<close>.\<close>

fun prepend :: "string option attempt \<Rightarrow> string \<Rightarrow> string" where
  "prepend (Returned (Some s)) xpath = s @ xpath"
| "prepend (Returned None) xpath = ''undefined'' @ xpath"
| "prepend Caught xpath = ''null'' @ xpath"

function getOptimalXPath :: "XMLDocument \<Rightarrow> domNode option \<Rightarrow> string option attempt" where
  "getOptimalXPath doc None = Caught"
| "getOptimalXPath doc (Some []) = Returned (Some [])"
| "getOptimalXPath doc (Some (i # p)) =
     (case elementAt doc (i # p) of
        None \<Rightarrow> Caught
      | Some n \<Rightarrow>
          (if nodeName n = [] then Returned (Some [])
           else
             (case casesLoop doc (i # p) n xpathCases None of
                Inl xpath \<Rightarrow> Returned xpath
              | Inr semiUniqueXpath \<Rightarrow>
                  (if truthy semiUniqueXpath then Returned semiUniqueXpath
                   else
                     Returned
                       (Some
                          (prepend (getOptimalXPath doc (parentNode (i # p)))
                             (positionStep doc (i # p) n)))))))"
  by pat_completeness auto
termination
  by (relation "measure (\<lambda>(doc, d). case d of None \<Rightarrow> 0 | Some p \<Rightarrow> length p)")
    (auto simp: parentNode_def)

subsection \<open>Class chain, predicate string, UiAutomator\<close>

definition classChainOf :: "string \<Rightarrow> string \<Rightarrow> string \<Rightarrow> string" where
  "classChainOf tag attrName attrValue =
     ''/'' @ tag @ ''['' @ backtick @ attrName @ '' == '' @ dq @ attrValue @ dq @ backtick @ '']''"

fun classChainLoop :: "XMLDocument \<Rightarrow> domNode \<Rightarrow> xnode \<Rightarrow> string list \<Rightarrow> string option" where
  "classChainLoop doc domNode n [] = None"
| "classChainLoop doc domNode n (attrName # rest) =
     (case getAttribute n attrName of
        None \<Rightarrow> classChainLoop doc domNode n rest
      | Some attrValue \<Rightarrow>
          (if attrValue = [] then classChainLoop doc domNode n rest
           else
             (case xpathSelect
                     (Descendants (if nodeName n = [] then ''*'' else nodeName n)
                        [(attrName, attrValue)]) doc of
                None \<Rightarrow> classChainLoop doc domNode n rest
              | Some othersWithAttr \<Rightarrow>
                  (if length othersWithAttr > 1 then
                     Some (classChainOf (if nodeName n = [] then ''*'' else nodeName n)
                             attrName attrValue
                           @ ''['' @ showInt (indexOf othersWithAttr domNode + 1) @ '']'')
                   else
                     Some (classChainOf (if nodeName n = [] then ''*'' else nodeName n)
                             attrName attrValue)))))"

function getOptimalClassChain :: "XMLDocument \<Rightarrow> domNode option \<Rightarrow> string option attempt" where
  "getOptimalClassChain doc None = Caught"
| "getOptimalClassChain doc (Some []) = Returned (Some [])"
| "getOptimalClassChain doc (Some (i # p)) =
     (case elementAt doc (i # p) of
        None \<Rightarrow> Caught
      | Some n \<Rightarrow>
          (if nodeName n = [] \<or> nodeName n = ''XCUIElementTypeApplication'' then
             Returned (Some [])
           else
             (case classChainLoop doc (i # p) n CHECKED_CLASS_CHAIN_ATTRIBUTES of
                Some classChain \<Rightarrow> Returned (Some classChain)
              | None \<Rightarrow>
                  Returned
                    (Some
                       (prepend (getOptimalClassChain doc (parentNode (i # p)))
                          (positionStep doc (i # p) n))))))"
  by pat_completeness auto
termination
  by (relation "measure (\<lambda>(doc, d). case d of None \<Rightarrow> 0 | Some p \<Rightarrow> length p)")
    (auto simp: parentNode_def)

definition predicateOf :: "string \<times> string \<Rightarrow> string" where
  "predicateOf av = fst av @ '' == '' @ dq @ snd av @ dq"

fun predicateLoop ::
  "XMLDocument \<Rightarrow> xnode \<Rightarrow> string list \<Rightarrow> (string \<times> string) list \<Rightarrow> string option" where
  "predicateLoop doc n [] xpathAttributes = None"
| "predicateLoop doc n (attrName # rest) xpathAttributes =
     (case getAttribute n attrName of
        None \<Rightarrow> predicateLoop doc n rest xpathAttributes
      | Some attrValue \<Rightarrow>
          (if attrValue = [] then predicateLoop doc n rest xpathAttributes
           else
             (case xpathSelect (Descendants ''*'' (xpathAttributes @ [(attrName, attrValue)])) doc of
                None \<Rightarrow> predicateLoop doc n rest (xpathAttributes @ [(attrName, attrValue)])
              | Some othersWithAttr \<Rightarrow>
                  (if length othersWithAttr = 1 then
                     Some (joinWith '' AND ''
                             (map predicateOf (xpathAttributes @ [(attrName, attrValue)])))
                   else predicateLoop doc n rest (xpathAttributes @ [(attrName, attrValue)])))))"

fun getOptimalPredicateString ::
  "XMLDocument \<Rightarrow> domNode option \<Rightarrow> string option attempt" where
  "getOptimalPredicateString doc None = Caught"
| "getOptimalPredicateString doc (Some []) = Returned (Some [])"
| "getOptimalPredicateString doc (Some (i # p)) =
     (case elementAt doc (i # p) of
        None \<Rightarrow> Caught
      | Some n \<Rightarrow>
          (if nodeName n = [] then Returned (Some [])
           else Returned (predicateLoop doc n CHECKED_PREDICATE_ATTRIBUTES [])))"

definition uiSelectorOf :: "string \<Rightarrow> string \<Rightarrow> string" where
  "uiSelectorOf attrTranslation attrValue =
     ''new UiSelector().'' @ attrTranslation @ ''('' @ dq @ attrValue @ dq @ '')''"

fun uiAutomatorLoop ::
  "XMLDocument \<Rightarrow> domNode \<Rightarrow> xnode \<Rightarrow> (string \<times> string) list \<Rightarrow> nat option \<Rightarrow> string option
     \<Rightarrow> string option" where
  "uiAutomatorLoop newDoc newDomNode n [] othersWithAttrMinCount mostUniqueSelector =
     (if truthy mostUniqueSelector then mostUniqueSelector else None)"
| "uiAutomatorLoop newDoc newDomNode n ((attrName, attrTranslation) # rest)
       othersWithAttrMinCount mostUniqueSelector =
     (case getAttribute n attrName of
        None \<Rightarrow> uiAutomatorLoop newDoc newDomNode n rest othersWithAttrMinCount mostUniqueSelector
      | Some attrValue \<Rightarrow>
          (if attrValue = [] then
             uiAutomatorLoop newDoc newDomNode n rest othersWithAttrMinCount mostUniqueSelector
           else
             (case xpathSelect (Descendants (nodeName n) [(attrName, attrValue)]) newDoc of
                None \<Rightarrow>
                  uiAutomatorLoop newDoc newDomNode n rest othersWithAttrMinCount
                    mostUniqueSelector
              | Some othersWithAttr \<Rightarrow>
                  (if length othersWithAttr = 1 then Some (uiSelectorOf attrTranslation attrValue)
                   else if (case othersWithAttrMinCount of
                              None \<Rightarrow> True
                            | Some m \<Rightarrow> m = 0 \<or> length othersWithAttr < m)
                   then
                     uiAutomatorLoop newDoc newDomNode n rest (Some (length othersWithAttr))
                       (Some (uiSelectorOf attrTranslation attrValue @ ''.instance(''
                              @ showInt (indexOf othersWithAttr newDomNode) @ '')''))
                   else
                     uiAutomatorLoop newDoc newDomNode n rest othersWithAttrMinCount
                       mostUniqueSelector))))"

text \<open>
  The last child of the hierarchy is serialised, wrapped in \<^verbatim>\<open><dummy>\<close> and parsed
  again: the new document has the one element \<^verbatim>\<open>dummy\<close> with that child as its only
  element child. The top-level ordinal of the path is compared, as a string, with the
  last index; ordinals are written in decimal, so the strings differ exactly when the
  numbers do, and the empty path has the component \<^verbatim>\<open>''\<close>, which is no number.
\<close>

definition hierarchyChildren :: "XMLDocument \<Rightarrow> xnode list" where
  "hierarchyChildren doc =
     (if childNodesOf doc (Some []) = [] then [] else childNodesOf doc (Some [0]))"

definition dummyDocument :: "XMLDocument \<Rightarrow> xnode \<Rightarrow> XMLDocument" where
  "dummyDocument doc lastHierarchyChild =
     doc\<lparr>documentChildren := [Element ''dummy'' [] [lastHierarchyChild]]\<rparr>"

definition getOptimalUiAutomatorSelector ::
  "XMLDocument \<Rightarrow> domNode option \<Rightarrow> nat list \<Rightarrow> string option attempt" where
  "getOptimalUiAutomatorSelector doc domNode pth =
     (case domNode of
        None \<Rightarrow> Caught
      | Some d \<Rightarrow>
          (if d = [] then Returned (Some [])
           else
             (case elementAt doc d of
                None \<Rightarrow> Caught
              | Some n \<Rightarrow>
                  (if nodeName n = [] then Returned (Some [])
                   else if hierarchyChildren doc = [] then Returned None
                   else if (case pth of
                              [] \<Rightarrow> True
                            | requestedHierarchyChildIndex # rest \<Rightarrow>
                                requestedHierarchyChildIndex \<noteq> length (hierarchyChildren doc) - 1)
                   then Returned None
                   else
                     (case findDOMNodeByPath (0 # tl pth)
                             (dummyDocument doc (last (hierarchyChildren doc))) of
                        Inl e \<Rightarrow> Caught
                      | Inr None \<Rightarrow> Caught
                      | Inr (Some newDomNode) \<Rightarrow>
                          (case elementAt (dummyDocument doc (last (hierarchyChildren doc)))
                                  newDomNode of
                             None \<Rightarrow> Caught
                           | Some newNode \<Rightarrow>
                               Returned
                                 (uiAutomatorLoop
                                    (dummyDocument doc (last (hierarchyChildren doc)))
                                    newDomNode newNode CHECKED_UIAUTOMATOR_ATTRIBUTES
                                    None None)))))))"

subsection \<open>All strategies of one element\<close>

text \<open>\<^verbatim>\<open>_.omitBy(complexLocators, _.isNil)\<close>.\<close>

fun omitNil :: "string option obj \<Rightarrow> string obj" where
  "omitNil [] = []"
| "omitNil ((k, None) # r) = omitNil r"
| "omitNil ((k, Some v) # r) = (k, v) # omitNil r"

definition getComplexSuggestedLocators ::
  "nat list \<Rightarrow> XMLDocument \<Rightarrow> bool \<Rightarrow> string \<Rightarrow> error + string obj" where
  "getComplexSuggestedLocators pth sourceDoc isNative automationName =
     (case findDOMNodeByPath pth sourceDoc of
        Inl e \<Rightarrow> Inl e
      | Inr domNode \<Rightarrow>
          Inr (omitNil
            (objSet
               (if isNative \<and> (automationName = ''xcuitest'' \<or> automationName = ''mac2'') then
                  objSet
                    (objSet []
                       ''-ios class chain''
                       (if truthy (nullable (getOptimalClassChain sourceDoc domNode))
                        then map_option ((@) ''**'')
                               (nullable (getOptimalClassChain sourceDoc domNode))
                        else None))
                    ''-ios predicate string''
                    (nullable (getOptimalPredicateString sourceDoc domNode))
                else if isNative \<and> automationName = ''uiautomator2'' then
                  objSet []
                    ''-android uiautomator''
                    (nullable (getOptimalUiAutomatorSelector sourceDoc domNode pth))
                else [])
               ''xpath''
               (nullable (getOptimalXPath sourceDoc domNode)))))"

definition priorityOrder :: "bool \<Rightarrow> string \<Rightarrow> string list" where
  "priorityOrder isNative automationName =
     (if isNative \<and> (automationName = ''xcuitest'' \<or> automationName = ''mac2'') then
        [''id'', ''accessibility id'', ''-ios predicate string'', ''-ios class chain'',
         ''xpath'', ''class name'']
      else if isNative \<and> automationName = ''uiautomator2'' then
        [''id'', ''accessibility id'', ''xpath'', ''-android uiautomator'', ''class name'']
      else [''id'', ''class name'', ''xpath''])"

text \<open>The two loops that fill \<^verbatim>\<open>sortedLocators\<close>.\<close>

fun inPriorityOrder :: "string list \<Rightarrow> string obj \<Rightarrow> (string \<times> string) list" where
  "inPriorityOrder [] allLocators = []"
| "inPriorityOrder (strategy # rest) allLocators =
     (case map_of allLocators strategy of
        None \<Rightarrow> inPriorityOrder rest allLocators
      | Some v \<Rightarrow>
          (if v \<noteq> [] then (strategy, v) # inPriorityOrder rest allLocators
           else inPriorityOrder rest allLocators))"

definition remaining :: "string list \<Rightarrow> string obj \<Rightarrow> (string \<times> string) list" where
  "remaining order allLocators = filter (\<lambda>kv. fst kv \<notin> set order) allLocators"

definition getSuggestedLocators ::
  "JSONElement \<Rightarrow> XMLDocument \<Rightarrow> bool \<Rightarrow> string \<Rightarrow> error + (string \<times> string) list" where
  "getSuggestedLocators selectedElement sourceDoc isNative automationName =
     (case getSimpleSuggestedLocators (attributes selectedElement) (Some sourceDoc) isNative of
        Inl e \<Rightarrow> Inl e
      | Inr simpleLocators \<Rightarrow>
          (case getComplexSuggestedLocators (path selectedElement) sourceDoc isNative
                  automationName of
             Inl e \<Rightarrow> Inl e
           | Inr complexLocators \<Rightarrow>
               Inr (inPriorityOrder (priorityOrder isNative automationName)
                      (assignAll simpleLocators complexLocators)
                    @ remaining (priorityOrder isNative automationName)
                        (assignAll simpleLocators complexLocators))))"

subsection \<open>generate-all-locators.ts\<close>

record ElementWithLocators =
  e_tagName :: string
  e_locators :: "string obj"
  e_text :: string
  e_contentDesc :: string
  e_resourceId :: string
  e_clickable :: bool
  e_enabled :: bool
  e_displayed :: bool

definition orEmpty :: "string option \<Rightarrow> string" where
  "orEmpty v = (case v of None \<Rightarrow> [] | Some s \<Rightarrow> s)"

definition transformElementWithLocators ::
  "JSONElement \<Rightarrow> (string \<times> string) list \<Rightarrow> ElementWithLocators" where
  "transformElementWithLocators element locators =
     \<lparr>e_tagName = tagName element,
      e_locators = fromEntries locators,
      e_text = orEmpty (map_of (attributes element) ''text''),
      e_contentDesc = orEmpty (map_of (attributes element) ''content-desc''),
      e_resourceId = orEmpty (map_of (attributes element) ''resource-id''),
      e_clickable = (map_of (attributes element) ''clickable'' = Some ''true''),
      e_enabled = (map_of (attributes element) ''enabled'' = Some ''true''),
      e_displayed = (map_of (attributes element) ''displayed'' = Some ''true'')\<rparr>"

text \<open>
  The \<^verbatim>\<open>results\<close> array is passed through. The document is the snapshot parsed
  again, which is the same document. An error that leaves \<^verbatim>\<open>getSuggestedLocators\<close>
  is caught (and logged): nothing is pushed.
\<close>

definition processElement ::
  "JSONElement \<Rightarrow> XMLDocument \<Rightarrow> bool \<Rightarrow> string \<Rightarrow> FilterOptions
     \<Rightarrow> ElementWithLocators list \<Rightarrow> ElementWithLocators list" where
  "processElement element sourceDoc isNative automationName filters results =
     (if \<not> shouldIncludeElement element filters isNative automationName then results
      else
        (case getSuggestedLocators element sourceDoc isNative automationName of
           Inl e \<Rightarrow> results
         | Inr strategyMap \<Rightarrow> results @ [transformElementWithLocators element strategyMap]))"

fun traverseElement ::
  "JSONElement \<Rightarrow> XMLDocument \<Rightarrow> bool \<Rightarrow> string \<Rightarrow> FilterOptions
     \<Rightarrow> ElementWithLocators list \<Rightarrow> ElementWithLocators list"
  and traverseChildren ::
  "JSONElement list \<Rightarrow> XMLDocument \<Rightarrow> bool \<Rightarrow> string \<Rightarrow> FilterOptions
     \<Rightarrow> ElementWithLocators list \<Rightarrow> ElementWithLocators list"
where
  "traverseElement (JSONElement cs t a p) sourceDoc isNative automationName filters results =
     traverseChildren cs sourceDoc isNative automationName filters
       (processElement (JSONElement cs t a p) sourceDoc isNative automationName filters results)"
| "traverseChildren [] sourceDoc isNative automationName filters results = results"
| "traverseChildren (child # rest) sourceDoc isNative automationName filters results =
     traverseChildren rest sourceDoc isNative automationName filters
       (traverseElement child sourceDoc isNative automationName filters results)"

definition traverseAndProcessElements ::
  "JSONElement option \<Rightarrow> XMLDocument \<Rightarrow> bool \<Rightarrow> string \<Rightarrow> FilterOptions
     \<Rightarrow> ElementWithLocators list \<Rightarrow> ElementWithLocators list" where
  "traverseAndProcessElements element sourceDoc isNative automationName filters results =
     (case element of
        None \<Rightarrow> results
      | Some e \<Rightarrow> traverseElement e sourceDoc isNative automationName filters results)"

definition generateAllElementLocators ::
  "XMLDocument \<Rightarrow> bool \<Rightarrow> string \<Rightarrow> FilterOptions \<Rightarrow> ElementWithLocators list" where
  "generateAllElementLocators sourceDoc isNative automationName filters =
     traverseAndProcessElements (Some (xmlToJSON sourceDoc)) sourceDoc isNative automationName
       filters []"

section \<open>Notions of the specification\<close>

text \<open>
  The elements that carry an attribute with a value, in document order: what a simple
  candidate (an attribute with its value) selects in the tree.
\<close>

definition nodesWithAttribute :: "string \<Rightarrow> string \<Rightarrow> XMLDocument \<Rightarrow> domNode list" where
  "nodesWithAttribute a v doc =
     map fst (filter (\<lambda>pn. (a, v) \<in> set (attrs (snd pn))) (allElements doc))"

subsection \<open>Verdicts of the XPath tiers\<close>

text \<open>
  Every candidate the tiers look at, in tier order and then attribute order, with what the
  uniqueness check says of it. The tag-name tier has the single candidate \<^verbatim>\<open>//tag\<close>,
  fully unique or nothing.
\<close>

datatype verdict = FullyUnique string | SemiUnique string | NoCandidate

definition verdictOf :: "XMLDocument \<Rightarrow> domNode \<Rightarrow> xpathQuery option \<Rightarrow> verdict" where
  "verdictOf doc domNode candidate =
     (case candidate of
        None \<Rightarrow> NoCandidate
      | Some q \<Rightarrow>
          (case determineXpathUniqueness q doc domNode of
             (isUnique, indexIfNotUnique) \<Rightarrow>
               (if isUnique then FullyUnique (xpathString q)
                else
                  (case indexIfNotUnique of
                     None \<Rightarrow> NoCandidate
                   | Some i \<Rightarrow> SemiUnique (semiUnique q i)))))"

definition tagNameVerdict :: "XMLDocument \<Rightarrow> domNode \<Rightarrow> xnode \<Rightarrow> verdict" where
  "tagNameVerdict doc domNode n =
     (case getUniqueXPath doc domNode n (Names []) of
        (Some x, Some True) \<Rightarrow> FullyUnique x
      | _ \<Rightarrow> NoCandidate)"

definition tierVerdicts :: "XMLDocument \<Rightarrow> domNode \<Rightarrow> xnode \<Rightarrow> attrList \<Rightarrow> verdict list" where
  "tierVerdicts doc domNode n attrs' =
     (if attrListLength attrs' = 0 then [tagNameVerdict doc domNode n]
      else
        map (verdictOf doc domNode)
          (candidateQueries (if nodeName n = [] then ''*'' else nodeName n) n attrs'))"

definition allVerdicts :: "XMLDocument \<Rightarrow> domNode \<Rightarrow> xnode \<Rightarrow> verdict list" where
  "allVerdicts doc domNode n = concat (map (tierVerdicts doc domNode n) xpathCases)"

fun firstFullyUnique :: "verdict list \<Rightarrow> string option" where
  "firstFullyUnique [] = None"
| "firstFullyUnique (FullyUnique x # vs) = Some x"
| "firstFullyUnique (v # vs) = firstFullyUnique vs"

fun firstSemiUnique :: "verdict list \<Rightarrow> string option" where
  "firstSemiUnique [] = None"
| "firstSemiUnique (SemiUnique s # vs) = Some s"
| "firstSemiUnique (v # vs) = firstSemiUnique vs"

text \<open>What a verdict list selects: the first fully unique one, else the first semi-unique.\<close>

definition chosen :: "verdict list \<Rightarrow> string option \<times> bool option" where
  "chosen vs =
     (case firstFullyUnique vs of
        Some x \<Rightarrow> (Some x, Some True)
      | None \<Rightarrow> (case firstSemiUnique vs of Some s \<Rightarrow> (Some s, Some False) | None \<Rightarrow> (None, None)))"

subsection \<open>The priority list of the native predicate-string platforms\<close>

definition iosPriority :: "string list" where
  "iosPriority =
     [''id'', ''accessibility id'', ''-ios predicate string'', ''-ios class chain'', ''xpath'',
      ''class name'']"

subsection \<open>The elements of a translated tree\<close>




section \<open>Example documents\<close>

text \<open>
  Small snapshots, as parsed, on which the properties below are evaluated. The root of an
  Android snapshot is \<^verbatim>\<open>hierarchy\<close>, the root of an iOS snapshot \<^verbatim>\<open>AppiumAUT\<close>.
\<close>

definition noFilters :: FilterOptions where
  "noFilters = \<lparr>includeTagNames = None, excludeTagNames = None, requireAttributes = None,
     minAttributeCount = None, fetchableOnly = None, clickableOnly = None\<rparr>"


definition exDoc :: XMLDocument where
  "exDoc = \<lparr>documentName = ''#document'', documentChildren =
     [Element ''hierarchy'' []
        [Element ''Layout'' [(''resource-id'', ''outer'')]
           [Element ''Button'' [(''text'', ''OK'')] []]]]\<rparr>"

definition exFilters :: FilterOptions where
  "exFilters = noFilters\<lparr>excludeTagNames := Some [''Layout'', ''hierarchy'']\<rparr>"


definition twoDoc :: XMLDocument where
  "twoDoc = \<lparr>documentName = ''#document'', documentChildren =
     [Element ''hierarchy'' []
        [Element ''a'' [] [],
         Element ''a'' [(''text'', ''go'')] [Element ''b'' [(''text'', ''go'')] []]]]\<rparr>"

definition pairDoc :: XMLDocument where
  "pairDoc = \<lparr>documentName = ''#document'', documentChildren =
     [Element ''hierarchy'' []
        [Element ''a'' [(''name'', ''n''), (''resource-id'', ''r1'')] [],
         Element ''a'' [(''name'', ''n''), (''resource-id'', ''r2'')] [],
         Element ''c'' [(''text'', ''go'')] [],
         Element ''c'' [(''text'', ''go'')] []]]\<rparr>"


definition buttonDoc :: XMLDocument where
  "buttonDoc = \<lparr>documentName = ''#document'', documentChildren =
     [Element ''AppiumAUT'' []
        [Element ''XCUIElementTypeButton''
           [(''type'', ''XCUIElementTypeButton''), (''name'', ''OK''), (''rntestid'', ''ok-button'')]
           []]]\<rparr>"

definition buttonElement :: JSONElement where
  "buttonElement = JSONElement [] ''XCUIElementTypeButton''
     [(''type'', ''XCUIElementTypeButton''), (''name'', ''OK''), (''rntestid'', ''ok-button'')] [0]"

definition buttonLocators :: "(string \<times> string) list" where
  "buttonLocators =
     [(''id'', ''ok-button''),
      (''accessibility id'', ''OK''),
      (''-ios predicate string'', ''name == '' @ dq @ ''OK'' @ dq),
      (''-ios class chain'',
       ''**/XCUIElementTypeButton['' @ backtick @ ''name == '' @ dq @ ''OK'' @ dq @ backtick @ '']''),
      (''xpath'', ''//XCUIElementTypeButton[@name='' @ dq @ ''OK'' @ dq @ '']''),
      (''class name'', ''XCUIElementTypeButton'')]"




section \<open>Properties\<close>

subsection \<open>The uniqueness check of an attribute\<close>

lemma select_any_attribute:
  "CHR 0x22 \<notin> set v \<Longrightarrow>
     xpathSelect (Descendants ''*'' [(a, v)]) doc = Some (nodesWithAttribute a v doc)"
  by (simp add: xpathSelect_def nodesWithAttribute_def)

lemma stripQuotes_no_quote: "CHR 0x22 \<notin> set (stripQuotes v)"
  by (simp add: stripQuotes_def)

lemma areAttrAndValueUnique_present:
  "areAttrAndValueUnique a v (Some doc)
     = Inr (length (nodesWithAttribute a (stripQuotes v) doc) < 2)"
  by (simp add: areAttrAndValueUnique_def select_any_attribute stripQuotes_no_quote)

text \<open>
  C5. \<^verbatim>\<open>areAttrAndValueUnique\<close> answers true exactly when fewer than two elements of
  the whole tree carry the attribute with the value stripped of its double quotes; it
  answers true for an absent document and for a document without elements.
\<close>

theorem areAttrAndValueUnique_fewer_than_two:
  "areAttrAndValueUnique attrName v (Some doc)
     = Inr (length (nodesWithAttribute attrName (stripQuotes v) doc) < 2)
   \<and> areAttrAndValueUnique attrName v None = Inr True
   \<and> areAttrAndValueUnique attrName v (Some (doc\<lparr>documentChildren := []\<rparr>)) = Inr True"
  by (simp add: areAttrAndValueUnique_present)
    (simp add: areAttrAndValueUnique_def nodesWithAttribute_def allElements_def)

subsection \<open>The document without elements\<close>



subsection \<open>The traversal\<close>

lemma processElement_append:
  "processElement e doc isNative an f res = res @ processElement e doc isNative an f []"
  by (simp add: processElement_def split: sum.splits)

lemma traverseChildren_concat:
  assumes "\<And>c res. c \<in> set cs \<Longrightarrow>
     traverseElement c doc isNative an f res = res @ traverseElement c doc isNative an f []"
  shows "traverseChildren cs doc isNative an f res
     = res @ concat (map (\<lambda>c. traverseElement c doc isNative an f []) cs)"
  using assms
proof (induction cs arbitrary: res)
  case Nil
  then show ?case by simp
next
  case (Cons c cs)
  have step: "traverseElement c doc isNative an f res
      = res @ traverseElement c doc isNative an f []"
    by (rule Cons.prems) simp
  have ih: "traverseChildren cs doc isNative an f (traverseElement c doc isNative an f res)
      = traverseElement c doc isNative an f res
          @ concat (map (\<lambda>c. traverseElement c doc isNative an f []) cs)"
    by (rule Cons.IH) (rule Cons.prems, simp)
  have "traverseChildren (c # cs) doc isNative an f res
      = (res @ traverseElement c doc isNative an f [])
          @ concat (map (\<lambda>c. traverseElement c doc isNative an f []) cs)"
    unfolding traverseChildren.simps ih by (subst step) (rule refl)
  then show ?case by simp
qed

lemma traverseElement_append:
  "traverseElement e doc isNative an f res = res @ traverseElement e doc isNative an f []"
proof (induction e arbitrary: res)
  case (JSONElement cs t a p)
  have ch: "\<And>r. traverseChildren cs doc isNative an f r
     = r @ concat (map (\<lambda>c. traverseElement c doc isNative an f []) cs)"
    by (rule traverseChildren_concat) (rule JSONElement.IH)
  have pe: "processElement (JSONElement cs t a p) doc isNative an f res
     = res @ processElement (JSONElement cs t a p) doc isNative an f []"
    by (rule processElement_append)
  show ?case
    unfolding traverseElement.simps ch by (subst pe) simp
qed

lemma traverseChildren_preorder:
  "traverseChildren cs doc isNative an f res
     = res @ concat (map (\<lambda>c. traverseElement c doc isNative an f []) cs)"
  by (rule traverseChildren_concat) (rule traverseElement_append)

lemma traverseElement_preorder:
  "traverseElement e doc isNative an f res
     = res @ processElement e doc isNative an f []
         @ concat (map (\<lambda>c. traverseElement c doc isNative an f []) (children e))"
proof (cases e)
  case (JSONElement cs t a p)
  have pe: "processElement (JSONElement cs t a p) doc isNative an f res
     = res @ processElement (JSONElement cs t a p) doc isNative an f []"
    by (rule processElement_append)
  show ?thesis
    unfolding JSONElement traverseElement.simps traverseChildren_preorder
    by (subst pe) simp
qed


lemma processElement_empty_cases:
  "processElement e doc isNative an f [] = []
   \<or> (shouldIncludeElement e f isNative an
        \<and> (\<exists>locs. processElement e doc isNative an f [] = [transformElementWithLocators e locs]))"
  by (auto simp: processElement_def split: sum.splits)

lemma excluded_not_included:
  "excludeTagNames f = Some ex \<Longrightarrow> tagName e \<in> set ex \<Longrightarrow> \<not> shouldIncludeElement e f isNative an"
  by (simp add: shouldIncludeElement_def matchesTagFilters_def)

lemma processElement_tag:
  assumes "excludeTagNames f = Some ex" and "r \<in> set (processElement e doc isNative an f [])"
  shows "e_tagName r \<notin> set ex"
proof -
  from processElement_empty_cases [of e doc isNative an f] assms(2)
  obtain locs where inc: "shouldIncludeElement e f isNative an"
    and r: "r = transformElementWithLocators e locs"
    by auto
  from inc assms(1) have "tagName e \<notin> set ex"
    using excluded_not_included by blast
  then show ?thesis by (simp add: r transformElementWithLocators_def)
qed

lemma traverseElement_tags:
  assumes "excludeTagNames f = Some ex"
  shows "r \<in> set (traverseElement e doc isNative an f []) \<Longrightarrow> e_tagName r \<notin> set ex"
proof (induction e arbitrary: r)
  case (JSONElement cs t a p)
  from JSONElement.prems
  have "r \<in> set (processElement (JSONElement cs t a p) doc isNative an f [])
      \<or> (\<exists>c \<in> set cs. r \<in> set (traverseElement c doc isNative an f []))"
    by (subst (asm) traverseElement_preorder) auto
  then show ?case
    using processElement_tag [OF assms] JSONElement.IH by blast
qed

text \<open>
  C9. When \<^verbatim>\<open>excludeTagNames\<close> contains a tag, no result carries that tag, and the
  traversal of an element with that tag yields exactly what the traversals of its children
  yield: its descendants are processed on their own.
\<close>

theorem exclusion_correctness:
  assumes "excludeTagNames filters = Some ex" and "T \<in> set ex"
  shows "(\<forall>r \<in> set (generateAllElementLocators doc isNative automationName filters).
            e_tagName r \<noteq> T)
       \<and> (tagName e = T \<longrightarrow>
            traverseElement e doc isNative automationName filters results
              = results @ concat (map (\<lambda>c. traverseElement c doc isNative automationName filters [])
                                    (children e)))"
proof
  show "\<forall>r \<in> set (generateAllElementLocators doc isNative automationName filters). e_tagName r \<noteq> T"
    using traverseElement_tags [OF assms(1)] assms(2)
    by (auto simp: generateAllElementLocators_def traverseAndProcessElements_def)
next
  show "tagName e = T \<longrightarrow>
            traverseElement e doc isNative automationName filters results
              = results @ concat (map (\<lambda>c. traverseElement c doc isNative automationName filters [])
                                    (children e))"
  proof
    assume "tagName e = T"
    then have "\<not> shouldIncludeElement e filters isNative automationName"
      using excluded_not_included assms by blast
    then have "processElement e doc isNative automationName filters [] = []"
      by (simp add: processElement_def)
    then show "traverseElement e doc isNative automationName filters results
              = results @ concat (map (\<lambda>c. traverseElement c doc isNative automationName filters [])
                                    (children e))"
      by (subst traverseElement_preorder) simp
  qed
qed

theorem exclusion_correctness_witness:
  "excludeTagNames exFilters = Some [''Layout'', ''hierarchy'']
   \<and> ''Layout'' \<in> set [''Layout'']
   \<and> list_all (\<lambda>r. e_tagName r \<noteq> ''Layout'')
        (generateAllElementLocators exDoc True ''uiautomator2'' exFilters)
   \<and> map e_tagName (generateAllElementLocators exDoc True ''uiautomator2'' exFilters)
        = [''Button'']
   \<and> traverseElement (JSONElement [JSONElement [] ''Button'' [(''text'', ''OK'')] [0, 0]]
          ''Layout'' [(''resource-id'', ''outer'')] [0]) exDoc True ''uiautomator2'' exFilters []
        = concat (map (\<lambda>c. traverseElement c exDoc True ''uiautomator2'' exFilters [])
            [JSONElement [] ''Button'' [(''text'', ''OK'')] [0, 0]])"
proof -
  have h1: "excludeTagNames exFilters = Some [''Layout'', ''hierarchy'']"
    by (simp add: exFilters_def noFilters_def)
  have h2: "''Layout'' \<in> set [''Layout'', ''hierarchy'']"
    by simp
  have out: "map e_tagName (generateAllElementLocators exDoc True ''uiautomator2'' exFilters)
        = [''Button'']"
    by code_simp
  from exclusion_correctness [OF h1 h2, of exDoc True "''uiautomator2''"
      "JSONElement [JSONElement [] ''Button'' [(''text'', ''OK'')] [0, 0]]
          ''Layout'' [(''resource-id'', ''outer'')] [0]" "[]"]
  show ?thesis
    using h1 out by (simp add: list_all_iff)
qed

subsection \<open>Errors of the strategies\<close>







subsection \<open>The UiAutomator strategy\<close>

text \<open>
  C8. When the top-level ordinal of the path is not the index of the last child of the
  hierarchy root (or the path is empty), the UiAutomator strategy gives no candidate; for
  an element of the document it returns \<^verbatim>\<open>null\<close>.
\<close>

theorem uiautomator_outside_last_child:
  assumes "pth = [] \<or> hd pth \<noteq> length (hierarchyChildren doc) - 1"
  shows "\<not> truthy (nullable (getOptimalUiAutomatorSelector doc domNode pth))
       \<and> (elementAt doc d = Some n \<longrightarrow> nodeName n \<noteq> [] \<longrightarrow>
            getOptimalUiAutomatorSelector doc (Some d) pth = Returned None)"
  using assms
  by (cases pth) (auto simp: getOptimalUiAutomatorSelector_def elementAt_def split: option.splits)

theorem uiautomator_outside_last_child_witness:
  "hd [0 :: nat] \<noteq> length (hierarchyChildren twoDoc) - 1
   \<and> elementAt twoDoc [0, 0] = Some (Element ''a'' [] [])
   \<and> getOptimalUiAutomatorSelector twoDoc (Some [0, 0]) [0] = Returned None
   \<and> getOptimalUiAutomatorSelector twoDoc (Some [0, 1]) [1]
       = Returned (Some (''new UiSelector().text('' @ dq @ ''go'' @ dq @ '')''))"
proof -
  have h: "[0 :: nat] = [] \<or> hd [0 :: nat] \<noteq> length (hierarchyChildren twoDoc) - 1"
    by code_simp
  have e: "elementAt twoDoc [0, 0] = Some (Element ''a'' [] [])"
    by code_simp
  have inside: "getOptimalUiAutomatorSelector twoDoc (Some [0, 1]) [1]
       = Returned (Some (''new UiSelector().text('' @ dq @ ''go'' @ dq @ '')''))"
    by code_simp
  from uiautomator_outside_last_child [OF h, of "Some [0, 0]" "[0, 0]" "Element ''a'' [] []"]
  show ?thesis
    using h e inside by simp
qed

subsection \<open>The tag-name tier at the root\<close>

text \<open>
  C7. The tag \<^verbatim>\<open>hierarchy\<close> is unique and its element is the root, whose parent is the
  Document node, named \<^verbatim>\<open>#document\<close>: the test \<^verbatim>\<open>!domNode.parentNode?.nodeName\<close>
  fails and the expression keeps its double slash, also as the prefix of the expression
  of a child.
\<close>

theorem tag_name_tier_at_root:
  "getUniqueXPath twoDoc [0]
     (Element ''hierarchy'' []
        [Element ''a'' [] [],
         Element ''a'' [(''text'', ''go'')] [Element ''b'' [(''text'', ''go'')] []]])
     (Names [])
     = (Some ''//hierarchy'', Some True)
   \<and> getOptimalXPath twoDoc (Some [0, 0]) = Returned (Some ''//hierarchy/a[1]'')"
  by code_simp

subsection \<open>The tiers of the XPath strategy\<close>

lemma firstFullyUnique_append:
  "firstFullyUnique (xs @ ys)
     = (case firstFullyUnique xs of Some x \<Rightarrow> Some x | None \<Rightarrow> firstFullyUnique ys)"
  by (induction xs rule: firstFullyUnique.induct) simp_all

lemma firstSemiUnique_append:
  "firstSemiUnique (xs @ ys)
     = (case firstSemiUnique xs of Some x \<Rightarrow> Some x | None \<Rightarrow> firstSemiUnique ys)"
  by (induction xs rule: firstSemiUnique.induct) simp_all

lemma semiUnique_shape: "semiUnique q i = CHR ''('' # tl (semiUnique q i)"
  by (simp add: semiUnique_def)

lemma xpathString_shape: "xpathString q = CHR ''/'' # tl (xpathString q)"
  by (cases q rule: xpathString.cases) simp_all

lemma verdictOf_None: "verdictOf doc d None = NoCandidate"
  by (simp add: verdictOf_def)

lemma verdictOf_Some:
  "determineXpathUniqueness q doc d = (u, i) \<Longrightarrow>
   verdictOf doc d (Some q)
     = (if u then FullyUnique (xpathString q)
        else (case i of None \<Rightarrow> NoCandidate | Some j \<Rightarrow> SemiUnique (semiUnique q j)))"
  by (simp add: verdictOf_def)

lemma uniqueLoop_chosen:
  "semi = None \<or> truthy semi \<Longrightarrow>
   uniqueLoop doc d qs semi
     = (case firstFullyUnique (map (verdictOf doc d) qs) of
          Some x \<Rightarrow> (Some x, Some True)
        | None \<Rightarrow>
            (case (if truthy semi then semi else firstSemiUnique (map (verdictOf doc d) qs)) of
               Some s \<Rightarrow> (Some s, Some False)
             | None \<Rightarrow> (None, None)))"
proof (induction doc d qs semi rule: uniqueLoop.induct)
  case (1 doc domNode semiUniqueXpath)
  then show ?case by (cases semiUniqueXpath) auto
next
  case (2 doc domNode rest semiUniqueXpath)
  then show ?case by (simp add: verdictOf_None split: option.splits)
next
  case (3 doc domNode xpath rest semiUniqueXpath)
  obtain u i where det: "determineXpathUniqueness xpath doc domNode = (u, i)"
    by (cases "determineXpathUniqueness xpath doc domNode")
  note v = verdictOf_Some [OF det]
  show ?case
  proof (cases u)
    case True
    then show ?thesis by (simp add: det v split: option.splits)
  next
    case False
    have nonempty: "\<And>j. semiUnique xpath j \<noteq> []"
      by (subst semiUnique_shape) simp
    show ?thesis
    proof (cases i)
      case None
      with False det "3.IH" [OF det [symmetric]] "3.prems"
      show ?thesis by (simp add: v split: option.splits)
    next
      case (Some j)
      with False det "3.IH" [OF det [symmetric]] "3.prems" nonempty
      show ?thesis by (cases semiUniqueXpath) (auto simp: v split: option.splits)
    qed
  qed
qed

lemma getUniqueXPath_chosen:
  "getUniqueXPath doc d n attrs' = chosen (tierVerdicts doc d n attrs')"
proof (cases "attrListLength attrs' = 0")
  case True
  then have names: "attrs' = Names [] \<or> attrs' = Pairs []"
    by (cases attrs') auto
  have same: "getUniqueXPath doc d n attrs' = getUniqueXPath doc d n (Names [])"
    using names by (auto simp: getUniqueXPath_def)
  show ?thesis
    unfolding same using True
    by (simp add: tierVerdicts_def tagNameVerdict_def chosen_def getUniqueXPath_def)
next
  case False
  then show ?thesis
    by (simp add: getUniqueXPath_def tierVerdicts_def chosen_def uniqueLoop_chosen)
qed


lemma firstSemiUnique_mem: "firstSemiUnique vs = Some s \<Longrightarrow> SemiUnique s \<in> set vs"
  by (induction vs rule: firstSemiUnique.induct) auto

lemma firstFullyUnique_mem: "firstFullyUnique vs = Some x \<Longrightarrow> FullyUnique x \<in> set vs"
  by (induction vs rule: firstFullyUnique.induct) auto

lemma verdictOf_semi_shape:
  "verdictOf doc d c = SemiUnique s \<Longrightarrow> \<exists>r. s = CHR ''('' # r"
  using semiUnique_shape
  by (auto simp: verdictOf_def split: option.splits prod.splits if_splits)

lemma verdictOf_unique_shape:
  "verdictOf doc d c = FullyUnique x \<Longrightarrow> \<exists>r. x = CHR ''/'' # r"
  using xpathString_shape
  by (auto simp: verdictOf_def split: option.splits prod.splits if_splits)

lemma tagNameVerdict_shape:
  "tagNameVerdict doc d n = FullyUnique x \<Longrightarrow> \<exists>r. x = CHR ''/'' # r"
  by (auto simp: tagNameVerdict_def getUniqueXPath_def split: if_splits)

lemma tagNameVerdict_not_semi: "tagNameVerdict doc d n \<noteq> SemiUnique s"
  by (auto simp: tagNameVerdict_def getUniqueXPath_def split: if_splits)

lemma tier_semi_shape:
  "SemiUnique s \<in> set (tierVerdicts doc d n attrs') \<Longrightarrow> \<exists>r. s = CHR ''('' # r"
proof (cases "attrListLength attrs' = 0")
  case True
  assume "SemiUnique s \<in> set (tierVerdicts doc d n attrs')"
  with True show ?thesis
    using tagNameVerdict_not_semi [of doc d n s] by (simp add: tierVerdicts_def)
next
  case False
  assume "SemiUnique s \<in> set (tierVerdicts doc d n attrs')"
  with False obtain c where "verdictOf doc d c = SemiUnique s"
    by (auto simp: tierVerdicts_def)
  then show ?thesis by (rule verdictOf_semi_shape)
qed

lemma tier_unique_shape:
  "FullyUnique x \<in> set (tierVerdicts doc d n attrs') \<Longrightarrow> \<exists>r. x = CHR ''/'' # r"
proof (cases "attrListLength attrs' = 0")
  case True
  assume "FullyUnique x \<in> set (tierVerdicts doc d n attrs')"
  with True have "tagNameVerdict doc d n = FullyUnique x"
    by (simp add: tierVerdicts_def)
  then show ?thesis by (rule tagNameVerdict_shape)
next
  case False
  assume "FullyUnique x \<in> set (tierVerdicts doc d n attrs')"
  with False obtain c where "verdictOf doc d c = FullyUnique x"
    by (auto simp: tierVerdicts_def)
  then show ?thesis by (rule verdictOf_unique_shape)
qed

lemma casesLoop_chosen:
  "semi = None \<or> truthy semi \<Longrightarrow>
   casesLoop doc d n cs semi
     = (case firstFullyUnique (concat (map (tierVerdicts doc d n) cs)) of
          Some x \<Rightarrow> Inl (Some x)
        | None \<Rightarrow>
            Inr (if truthy semi then semi
                 else firstSemiUnique (concat (map (tierVerdicts doc d n) cs))))"
proof (induction cs arbitrary: semi)
  case Nil
  then show ?case by auto
next
  case (Cons c cs)
  let ?t = "tierVerdicts doc d n c"
  show ?case
  proof (cases "firstFullyUnique ?t")
    case (Some x)
    then show ?thesis
      by (simp add: getUniqueXPath_chosen chosen_def firstFullyUnique_append)
  next
    case None
    show ?thesis
    proof (cases "firstSemiUnique ?t")
      case nosemi: None
      have "casesLoop doc d n (c # cs) semi = casesLoop doc d n cs semi"
        by (simp add: getUniqueXPath_chosen chosen_def None nosemi)
      with Cons.IH [OF Cons.prems] show ?thesis
        by (simp add: firstFullyUnique_append firstSemiUnique_append None nosemi
            split: option.splits)
    next
      case (Some s)
      then have "s \<noteq> []"
        using firstSemiUnique_mem tier_semi_shape by blast
      then have t: "truthy (Some s)" by simp
      have step: "casesLoop doc d n (c # cs) semi
          = casesLoop doc d n cs (if truthy semi then semi else Some s)"
        using \<open>s \<noteq> []\<close> by (simp add: getUniqueXPath_chosen chosen_def None Some)
      have ok: "(if truthy semi then semi else Some s) = None
          \<or> truthy (if truthy semi then semi else Some s)"
        using t by simp
      show ?thesis
        unfolding step Cons.IH [OF ok]
        using t by (simp add: firstFullyUnique_append firstSemiUnique_append None Some
            split: option.splits)
    qed
  qed
qed

text \<open>
  C6. For an element, the XPath strategy returns the first fully unique candidate of the
  tiers whenever there is one. When some candidate is semi-unique, the first semi-unique
  candidate (in tier order, then attribute order) is the expression returned exactly
  when no candidate of any tier is fully unique.
\<close>

theorem first_semi_unique_kept:
  assumes "elementAt doc d = Some n" and "nodeName n \<noteq> []"
  shows "(firstFullyUnique (allVerdicts doc d n) = Some x \<longrightarrow>
            getOptimalXPath doc (Some d) = Returned (Some x))
       \<and> (firstSemiUnique (allVerdicts doc d n) = Some s \<longrightarrow>
            (getOptimalXPath doc (Some d) = Returned (Some s))
              = (firstFullyUnique (allVerdicts doc d n) = None))"
proof -
  from assms(1) obtain i p where d: "d = i # p"
    by (cases d) (simp_all add: elementAt_def)
  have loop: "casesLoop doc d n xpathCases None
     = (case firstFullyUnique (allVerdicts doc d n) of
          Some x \<Rightarrow> Inl (Some x)
        | None \<Rightarrow> Inr (firstSemiUnique (allVerdicts doc d n)))"
    unfolding allVerdicts_def by (simp add: casesLoop_chosen)
  have unique: "firstFullyUnique (allVerdicts doc d n) = Some y \<Longrightarrow>
      getOptimalXPath doc (Some d) = Returned (Some y)" for y
    using assms by (simp add: d loop [unfolded d])
  have shape_s: "firstSemiUnique (allVerdicts doc d n) = Some s \<Longrightarrow> \<exists>r. s = CHR ''('' # r"
    using firstSemiUnique_mem [of "allVerdicts doc d n" s] tier_semi_shape
    by (auto simp: allVerdicts_def)
  have shape_x: "firstFullyUnique (allVerdicts doc d n) = Some y \<Longrightarrow> \<exists>r. y = CHR ''/'' # r" for y
    using firstFullyUnique_mem [of "allVerdicts doc d n" y] tier_unique_shape
    by (auto simp: allVerdicts_def)
  have semi: "firstSemiUnique (allVerdicts doc d n) = Some s \<Longrightarrow>
      firstFullyUnique (allVerdicts doc d n) = None \<Longrightarrow>
      getOptimalXPath doc (Some d) = Returned (Some s)"
    using assms shape_s by (auto simp: d loop [unfolded d])
  show ?thesis
  proof (intro conjI impI)
    assume "firstFullyUnique (allVerdicts doc d n) = Some x"
    then show "getOptimalXPath doc (Some d) = Returned (Some x)" by (rule unique)
  next
    assume s: "firstSemiUnique (allVerdicts doc d n) = Some s"
    show "(getOptimalXPath doc (Some d) = Returned (Some s))
              = (firstFullyUnique (allVerdicts doc d n) = None)"
    proof (cases "firstFullyUnique (allVerdicts doc d n)")
      case None
      with semi [OF s] show ?thesis by simp
    next
      case (Some y)
      from shape_x [OF Some] shape_s [OF s] have "y \<noteq> s" by auto
      with unique [OF Some] Some show ?thesis by simp
    qed
  qed
qed


theorem first_semi_unique_kept_witness:
  "elementAt pairDoc [0, 3] = Some (Element ''c'' [(''text'', ''go'')] [])
   \<and> firstFullyUnique (allVerdicts pairDoc [0, 3] (Element ''c'' [(''text'', ''go'')] [])) = None
   \<and> firstSemiUnique (allVerdicts pairDoc [0, 3] (Element ''c'' [(''text'', ''go'')] []))
       = Some (''(//c[@text='' @ dq @ ''go'' @ dq @ ''])[2]'')
   \<and> getOptimalXPath pairDoc (Some [0, 3])
       = Returned (Some (''(//c[@text='' @ dq @ ''go'' @ dq @ ''])[2]''))
   \<and> elementAt pairDoc [0, 0]
       = Some (Element ''a'' [(''name'', ''n''), (''resource-id'', ''r1'')] [])
   \<and> firstSemiUnique
         (allVerdicts pairDoc [0, 0] (Element ''a'' [(''name'', ''n''), (''resource-id'', ''r1'')] []))
       = Some (''(//a[@name='' @ dq @ ''n'' @ dq @ ''])[1]'')
   \<and> firstFullyUnique
         (allVerdicts pairDoc [0, 0] (Element ''a'' [(''name'', ''n''), (''resource-id'', ''r1'')] []))
       = Some (''//a[@resource-id='' @ dq @ ''r1'' @ dq @ '']'')
   \<and> getOptimalXPath pairDoc (Some [0, 0])
       = Returned (Some (''//a[@resource-id='' @ dq @ ''r1'' @ dq @ '']''))"
proof -
  let ?c = "Element ''c'' [(''text'', ''go'')] []"
  let ?a = "Element ''a'' [(''name'', ''n''), (''resource-id'', ''r1'')] []"
  have c1: "elementAt pairDoc [0, 3] = Some ?c"
    by code_simp
  have c2: "nodeName ?c \<noteq> []"
    by simp
  have c3: "firstFullyUnique (allVerdicts pairDoc [0, 3] ?c) = None"
    by code_simp
  have c4: "firstSemiUnique (allVerdicts pairDoc [0, 3] ?c)
       = Some (''(//c[@text='' @ dq @ ''go'' @ dq @ ''])[2]'')"
    by code_simp
  have a1: "elementAt pairDoc [0, 0] = Some ?a"
    by code_simp
  have a2: "nodeName ?a \<noteq> []"
    by simp
  have a3: "firstSemiUnique (allVerdicts pairDoc [0, 0] ?a)
       = Some (''(//a[@name='' @ dq @ ''n'' @ dq @ ''])[1]'')"
    by code_simp
  have a4: "firstFullyUnique (allVerdicts pairDoc [0, 0] ?a)
       = Some (''//a[@resource-id='' @ dq @ ''r1'' @ dq @ '']'')"
    by code_simp
  from first_semi_unique_kept [OF c1 c2,
      where s = "''(//c[@text='' @ dq @ ''go'' @ dq @ ''])[2]''"] c3 c4
  have rc: "getOptimalXPath pairDoc (Some [0, 3])
       = Returned (Some (''(//c[@text='' @ dq @ ''go'' @ dq @ ''])[2]''))"
    by simp
  from first_semi_unique_kept [OF a1 a2,
      where x = "''//a[@resource-id='' @ dq @ ''r1'' @ dq @ '']''"] a4
  have ra: "getOptimalXPath pairDoc (Some [0, 0])
       = Returned (Some (''//a[@resource-id='' @ dq @ ''r1'' @ dq @ '']''))"
    by simp
  show ?thesis
    using c1 c3 c4 rc a1 a3 a4 ra by simp
qed

subsection \<open>Uniqueness of the candidates\<close>


lemma nodeAt_Cons_0:
  "nodeAt (Element t a ks # rest) (0 # p) = (if p = [] then Some (Element t a ks) else nodeAt ks p)"
  by (cases p) simp_all

















subsection \<open>The order of the strategies\<close>

lemma objSet_keys: "fst ` set (objSet obj k v) = insert k (fst ` set obj)"
  by (induction obj k v rule: objSet.induct) auto

lemma objSet_values: "snd ` set (objSet obj k v) \<subseteq> insert v (snd ` set obj)"
  by (induction obj k v rule: objSet.induct) auto

lemma objSet_distinct: "distinct (map fst obj) \<Longrightarrow> distinct (map fst (objSet obj k v))"
proof (induction obj k v rule: objSet.induct)
  case (1 k v)
  then show ?case by simp
next
  case (2 k' v' r k v)
  have "fst ` set (objSet r k v) = insert k (fst ` set r)"
    by (rule objSet_keys)
  with 2 show ?case by auto
qed

lemma objSet_lookup: "map_of (objSet obj k v) k' = (if k' = k then Some v else map_of obj k')"
  by (induction obj k v rule: objSet.induct) auto

lemma objSet_fresh: "k \<notin> fst ` set obj \<Longrightarrow> objSet obj k v = obj @ [(k, v)]"
  by (induction obj k v rule: objSet.induct) auto

lemma assignAll_Cons: "assignAll target ((k, v) # entries) = assignAll (objSet target k v) entries"
  by (simp add: assignAll_def)

lemma assignAll_Nil: "assignAll target [] = target"
  by (simp add: assignAll_def)

lemma assignAll_keys:
  "fst ` set (assignAll target entries) = fst ` set target \<union> fst ` set entries"
proof (induction entries arbitrary: target)
  case Nil
  then show ?case by (simp add: assignAll_Nil)
next
  case (Cons kv entries)
  obtain k v where kv: "kv = (k, v)" by (cases kv)
  show ?case
    unfolding kv assignAll_Cons Cons.IH objSet_keys by auto
qed

lemma assignAll_lookup:
  "k \<notin> fst ` set entries \<Longrightarrow> map_of (assignAll target entries) k = map_of target k"
proof (induction entries arbitrary: target)
  case Nil
  then show ?case by (simp add: assignAll_Nil)
next
  case (Cons kv entries)
  obtain k' v where kv: "kv = (k', v)" by (cases kv)
  from Cons.prems kv have "k \<noteq> k'" and "k \<notin> fst ` set entries"
    by auto
  then show ?case
    unfolding kv assignAll_Cons by (simp add: Cons.IH objSet_lookup)
qed

lemma assignAll_fresh:
  "distinct (map fst (target @ entries)) \<Longrightarrow> assignAll target entries = target @ entries"
proof (induction entries arbitrary: target)
  case Nil
  then show ?case by (simp add: assignAll_Nil)
next
  case (Cons kv entries)
  obtain k v where kv: "kv = (k, v)" by (cases kv)
  from Cons.prems kv have fresh: "k \<notin> fst ` set target"
    by auto
  from Cons.prems kv have "distinct (map fst ((target @ [(k, v)]) @ entries))"
    by simp
  from Cons.IH [OF this] show ?case
    unfolding kv assignAll_Cons objSet_fresh [OF fresh] by simp
qed

lemma simpleLoop_invariant:
  assumes step: "\<And>obj al k v. P obj \<Longrightarrow> (al, k) \<in> S \<Longrightarrow> map_of as al = Some v \<Longrightarrow>
      v \<noteq> [] \<Longrightarrow> P (objSet obj k v)"
  shows "set ms \<subseteq> S \<Longrightarrow> simpleLoop ms as sd isNative res = Inr r \<Longrightarrow> P res \<Longrightarrow> P r"
proof (induction ms arbitrary: res)
  case Nil
  then show ?case by simp
next
  case (Cons m ms)
  obtain al k where m: "m = (al, k)" by (cases m)
  from Cons.prems(1) m have inS: "(al, k) \<in> S" and sub: "set ms \<subseteq> S"
    by auto
  show ?case
  proof (cases "\<not> (k = ''accessibility id'' \<and> \<not> isNative) \<and> truthy (map_of as al)")
    case False
    with Cons.prems(2) m have "simpleLoop ms as sd isNative res = Inr r"
      by (auto split: option.splits if_splits)
    from Cons.IH [OF sub this Cons.prems(3)] show ?thesis .
  next
    case True
    then obtain v where v: "map_of as al = Some v" and ne: "v \<noteq> []"
      by (cases "map_of as al") auto
    from True Cons.prems(2) m v ne obtain u
      where "simpleLoop ms as sd isNative (if u then objSet res k v else res) = Inr r"
      by (auto split: sum.splits)
    moreover have "P (if u then objSet res k v else res)"
      using step [OF Cons.prems(3) inS v ne] Cons.prems(3) by simp
    ultimately show ?thesis
      using Cons.IH [OF sub] by blast
  qed
qed


lemma getSimpleSuggestedLocators_shape:
  assumes "getSimpleSuggestedLocators as sd isNative = Inr simple"
  shows "fst ` set simple \<subseteq> {''accessibility id'', ''id'', ''class name''}
       \<and> distinct (map fst simple) \<and> [] \<notin> snd ` set simple"
proof -
  let ?P = "\<lambda>obj :: string obj. fst ` set obj \<subseteq> {''accessibility id'', ''id'', ''class name''}
       \<and> distinct (map fst obj) \<and> [] \<notin> snd ` set obj"
  have step: "?P (objSet obj k v)"
    if "?P obj" and "(al, k) \<in> set SIMPLE_STRATEGY_MAPPINGS" and "v \<noteq> []" for obj al k v
  proof -
    from that(2) have "k \<in> {''accessibility id'', ''id'', ''class name''}"
      by (auto simp: SIMPLE_STRATEGY_MAPPINGS_def)
    moreover from that(3) have "[] \<notin> insert v (snd ` set obj)"
      using that(1) by auto
    then have "[] \<notin> snd ` set (objSet obj k v)"
      using objSet_values [of obj k v] by blast
    ultimately show ?thesis
      using that(1) by (simp add: objSet_keys objSet_distinct)
  qed
  have "?P simple"
  proof (rule simpleLoop_invariant [where P = ?P and S = "set SIMPLE_STRATEGY_MAPPINGS"
        and ms = SIMPLE_STRATEGY_MAPPINGS and as = as and sd = sd and isNative = isNative
        and res = "[]"])
    show "set SIMPLE_STRATEGY_MAPPINGS \<subseteq> set SIMPLE_STRATEGY_MAPPINGS" by simp
    show "simpleLoop SIMPLE_STRATEGY_MAPPINGS as sd isNative [] = Inr simple"
      using assms by (simp add: getSimpleSuggestedLocators_def)
    show "?P []" by simp
  qed (rule step)
  then show ?thesis .
qed

lemma omitNil_keys: "map fst (omitNil xs) = map fst (filter (\<lambda>kv. snd kv \<noteq> None) xs)"
  by (induction xs rule: omitNil.induct) simp_all

lemma getComplexSuggestedLocators_ios:
  assumes "automationName = ''xcuitest'' \<or> automationName = ''mac2''"
    and "getComplexSuggestedLocators pth doc True automationName = Inr complex"
  shows "fst ` set complex \<subseteq> {''-ios class chain'', ''-ios predicate string'', ''xpath''}
       \<and> distinct (map fst complex)"
proof -
  from assms obtain x y z where
    "complex = omitNil [(''-ios class chain'', x), (''-ios predicate string'', y), (''xpath'', z)]"
    by (auto simp: getComplexSuggestedLocators_def split: sum.splits)
  then have keys: "map fst complex = map fst (filter (\<lambda>kv. snd kv \<noteq> None)
      [(''-ios class chain'', x), (''-ios predicate string'', y), (''xpath'', z)])"
    by (simp add: omitNil_keys)
  have "fst ` set complex = set (map fst complex)" by simp
  then show ?thesis unfolding keys by auto
qed

lemma inPriorityOrder_keys:
  "map fst (inPriorityOrder order allLocators)
     = filter (\<lambda>k. truthy (map_of allLocators k)) order"
  by (induction order allLocators rule: inPriorityOrder.induct) (auto split: option.splits)

lemma remaining_none: "fst ` set allLocators \<subseteq> set order \<Longrightarrow> remaining order allLocators = []"
  by (auto simp: remaining_def filter_empty_conv)

lemma present_value: "distinct (map fst obj) \<Longrightarrow> k \<in> fst ` set obj \<Longrightarrow> [] \<notin> snd ` set obj \<Longrightarrow>
  truthy (map_of obj k)"
proof -
  assume d: "distinct (map fst obj)" and k: "k \<in> fst ` set obj" and ne: "[] \<notin> snd ` set obj"
  from k obtain v where kv: "(k, v) \<in> set obj" by auto
  with d have "map_of obj k = Some v" by simp
  moreover from kv ne have "v \<noteq> []" by force
  ultimately show ?thesis by simp
qed

text \<open>
  C2. On a native platform with automation name \<^verbatim>\<open>xcuitest\<close> or \<^verbatim>\<open>mac2\<close>, the keys
  of the result are the keys present, in the order id, accessibility id, -ios predicate
  string, -ios class chain, xpath, class name, and nothing follows them; the mapping built
  from the pairs lists them in the same order. When the simple strategies give both an id
  and an accessibility id, the result starts with id followed by accessibility id.
\<close>

theorem priority_ordering:
  assumes "isNative"
    and "automationName = ''xcuitest'' \<or> automationName = ''mac2''"
    and "getSuggestedLocators e doc isNative automationName = Inr locs"
  shows "map fst locs = filter (\<lambda>k. k \<in> set (map fst locs)) iosPriority
       \<and> e_locators (transformElementWithLocators e locs) = locs
       \<and> (getSimpleSuggestedLocators (attributes e) (Some doc) isNative = Inr simple \<longrightarrow>
            ''id'' \<in> fst ` set simple \<longrightarrow> ''accessibility id'' \<in> fst ` set simple \<longrightarrow>
            (\<exists>rest. map fst locs = ''id'' # ''accessibility id'' # rest))"
proof -
  from assms(3) obtain simple' complex
    where s: "getSimpleSuggestedLocators (attributes e) (Some doc) isNative = Inr simple'"
      and c: "getComplexSuggestedLocators (path e) doc isNative automationName = Inr complex"
    by (auto simp: getSuggestedLocators_def split: sum.splits)
  let ?all = "assignAll simple' complex"
  have order: "priorityOrder isNative automationName = iosPriority"
    using assms(1,2) by (auto simp: priorityOrder_def iosPriority_def)
  note ss = getSimpleSuggestedLocators_shape [OF s]
  note cs = getComplexSuggestedLocators_ios [OF assms(2) c [unfolded \<open>isNative\<close> [THEN eqTrueI]]]
  have keys: "fst ` set ?all \<subseteq> set iosPriority"
    using ss cs by (auto simp: assignAll_keys iosPriority_def)
  have locs: "locs = inPriorityOrder iosPriority ?all"
    using assms(3) s c order by (simp add: getSuggestedLocators_def remaining_none [OF keys])
  let ?P = "\<lambda>k. truthy (map_of ?all k)"
  have mk: "map fst locs = filter ?P iosPriority"
    by (simp add: locs inPriorityOrder_keys)
  have first: "map fst locs = filter (\<lambda>k. k \<in> set (map fst locs)) iosPriority"
    unfolding mk by (rule filter_cong) auto
  have "distinct iosPriority"
    by (simp add: iosPriority_def)
  then have "distinct (map fst locs)"
    unfolding mk by simp
  then have second: "e_locators (transformElementWithLocators e locs) = locs"
    using assignAll_fresh [of "[]" locs]
    by (simp add: transformElementWithLocators_def fromEntries_def)
  have third: "\<exists>rest. map fst locs = ''id'' # ''accessibility id'' # rest"
    if "getSimpleSuggestedLocators (attributes e) (Some doc) isNative = Inr simple"
      and i: "''id'' \<in> fst ` set simple" and a: "''accessibility id'' \<in> fst ` set simple"
  proof -
    from that(1) s have eq: "simple' = simple" by simp
    have "''id'' \<notin> fst ` set complex" and "''accessibility id'' \<notin> fst ` set complex"
      using cs by auto
    then have "map_of ?all ''id'' = map_of simple ''id''"
      and "map_of ?all ''accessibility id'' = map_of simple ''accessibility id''"
      by (simp_all add: assignAll_lookup eq)
    moreover have "truthy (map_of simple ''id'')" and "truthy (map_of simple ''accessibility id'')"
      using ss i a unfolding eq by (simp_all add: present_value)
    ultimately have "?P ''id''" and "?P ''accessibility id''"
      by simp_all
    then show ?thesis
      unfolding mk by (simp add: iosPriority_def)
  qed
  from first second third show ?thesis by blast
qed


theorem priority_ordering_witness:
  "xmlToJSON buttonDoc = JSONElement [buttonElement] ''AppiumAUT'' [] []
   \<and> getSuggestedLocators buttonElement buttonDoc True ''xcuitest'' = Inr buttonLocators
   \<and> getSimpleSuggestedLocators (attributes buttonElement) (Some buttonDoc) True
       = Inr [(''accessibility id'', ''OK''), (''id'', ''ok-button''),
              (''class name'', ''XCUIElementTypeButton'')]
   \<and> map fst buttonLocators = filter (\<lambda>k. k \<in> set (map fst buttonLocators)) iosPriority
   \<and> e_locators (transformElementWithLocators buttonElement buttonLocators) = buttonLocators
   \<and> (\<exists>rest. map fst buttonLocators = ''id'' # ''accessibility id'' # rest)"
proof -
  have j: "xmlToJSON buttonDoc = JSONElement [buttonElement] ''AppiumAUT'' [] []"
    by code_simp
  have h: "getSuggestedLocators buttonElement buttonDoc True ''xcuitest'' = Inr buttonLocators"
    by code_simp
  have s: "getSimpleSuggestedLocators (attributes buttonElement) (Some buttonDoc) True
       = Inr [(''accessibility id'', ''OK''), (''id'', ''ok-button''),
              (''class name'', ''XCUIElementTypeButton'')]"
    by code_simp
  have i: "''id'' \<in> fst ` set [(''accessibility id'', ''OK''), (''id'', ''ok-button''),
              (''class name'', ''XCUIElementTypeButton'')]"
    by simp
  have a: "''accessibility id'' \<in> fst ` set [(''accessibility id'', ''OK''),
              (''id'', ''ok-button''), (''class name'', ''XCUIElementTypeButton'')]"
    by simp
  note t = priority_ordering [OF TrueI disjI1 [OF refl] h]
  from t [THEN conjunct1]
  have c1: "map fst buttonLocators
      = filter (\<lambda>k. k \<in> set (map fst buttonLocators)) iosPriority" .
  from t [THEN conjunct2, THEN conjunct1]
  have c2: "e_locators (transformElementWithLocators buttonElement buttonLocators)
      = buttonLocators" .
  from t [THEN conjunct2, THEN conjunct2, rule_format, OF s i a]
  have c3: "\<exists>rest. map fst buttonLocators = ''id'' # ''accessibility id'' # rest" .
  from j h s c1 c2 c3 show ?thesis by blast
qed

subsection \<open>Newlines in attribute values\<close>


















end
